theory Spec2Isabelle
  imports Complex_Main
begin

section \<open>Host-language values\<close>

text \<open>
  The bot is a Python script (\<^verbatim>\<open>arbitrage_bot.py\<close>). Python floats are modelled by the
  real numbers: every arithmetic operation of the source is the exact operation on
  \<^typ>\<open>real\<close>, so rounding is not part of this development. Quantities read from the
  ledger (wei amounts, nonces, gas) are unsigned and modelled by \<^typ>\<open>nat\<close>.

  An exception is a value. \<^verbatim>\<open>except Exception\<close> catches every exception of the model
  apart from \<open>KeyboardInterrupt\<close>, which derives from \<^verbatim>\<open>BaseException\<close> only. An
  interrupt by the user is the outcome of the call to a collaborator during which it
  arrives.
\<close>

datatype exn =
    KeyboardInterrupt
  | ZeroDivisionError
  | IndexError
  | OtherException string

definition is_Exception :: "exn \<Rightarrow> bool" where
  "is_Exception e = (e \<noteq> KeyboardInterrupt)"

text \<open>What a call to a collaborator (RPC node, signer, clock) does: return or raise.\<close>

datatype 'a outcome = Returns 'a | Raises exn

type_synonym address = string
type_synonym bytes = "nat list"

datatype router = Uniswap_router | Crystal_router

datatype token = WRAPPED_MONAD | USDC

text \<open>\<^verbatim>\<open>int(x)\<close> on a float truncates towards zero.\<close>

definition py_int :: "real \<Rightarrow> int" where
  "py_int x = (if 0 \<le> x then \<lfloor>x\<rfloor> else \<lceil>x\<rceil>)"

text \<open>
  \<^verbatim>\<open>web3.to_wei(x, 'gwei')\<close> for a non-negative \<open>x\<close>: the library multiplies by \<open>10^9\<close>
  in decimal arithmetic and truncates to an integer.
\<close>

definition to_wei_gwei :: "real \<Rightarrow> nat" where
  "to_wei_gwei x = nat (py_int (x * 10 ^ 9))"

text \<open>Truth value of an \<^verbatim>\<open>Optional[bytes]\<close> in an \<^verbatim>\<open>if\<close>: \<open>None\<close> and \<^verbatim>\<open>b''\<close> are false.\<close>

definition truthy :: "bytes option \<Rightarrow> bool" where
  "truthy h = (case h of None \<Rightarrow> False | Some b \<Rightarrow> b \<noteq> [])"

section \<open>Transactions, requests and the observable trace\<close>

text \<open>The two router functions the bot builds transactions for, with their arguments.\<close>

datatype swap_call =
    SwapExactETHForTokens int "token list" address int
  | SwapTokensForExactETH nat int "token list" address int

record tx =
  tx_router :: router
  tx_call :: swap_call
  chainId :: nat
  gas :: nat
  gasPrice :: nat
  nonce :: nat
  tx_value :: nat

text \<open>
  A receipt says how much gas the mined transaction used and, in \<open>status\<close>, whether it
  succeeded (1) or was reverted (0). The source reads \<^verbatim>\<open>gasUsed\<close> and never
  \<^verbatim>\<open>status\<close>.
\<close>

record receipt =
  gasUsed :: nat
  status :: nat

datatype request =
    Account_from_key
  | Eth_gas_price
  | GetAmountsOut router nat "token list"
  | Eth_get_transaction_count address
  | Sign_transaction tx
  | Send_raw_transaction tx
  | Wait_for_transaction_receipt bytes
  | Time_time
  | Time_sleep nat

datatype response = Ok | Failed exn

text \<open>The \<^verbatim>\<open>print\<close> statements of the source, by what they report.\<close>

datatype message =
    Msg_price_error exn
  | Msg_tx_failed exn
  | Msg_swap_eth_for_tokens_ok
  | Msg_swap_tokens_for_eth_ok
  | Msg_tx_hash bytes
  | Msg_executing
  | Msg_selling real
  | Msg_buying_back real
  | Msg_arbitrage_ok
  | Msg_arbitrage_failed
  | Msg_gas_price real
  | Msg_swap_amount real
  | Msg_profit real
  | Msg_threshold_exceeded
  | Msg_skip
  | Msg_started
  | Msg_stopped
  | Msg_critical exn

text \<open>
  An event is a call to a collaborator, with the wall-clock time at which it is made and
  whether it returned, or a printed message.
\<close>

datatype event = Call real request response | Print message

section \<open>The environment\<close>

text \<open>
  The collaborators are scripted: the \<open>k\<close>-th interaction of the process with the outside
  finds the clock at \<open>clock w k\<close> and gets the answer the corresponding field gives at
  \<open>k\<close>. \<open>default_account\<close> is \<^verbatim>\<open>web3.eth.default_account\<close> as the main block sets it
  and \<open>chain_id\<close> is \<^verbatim>\<open>CHAIN_ID\<close>.
\<close>

record world =
  clock :: "nat \<Rightarrow> real"
  default_account :: address
  chain_id :: nat
  account_from_key :: "nat \<Rightarrow> address outcome"
  eth_gas_price :: "nat \<Rightarrow> nat outcome"
  getAmountsOut :: "nat \<Rightarrow> router \<Rightarrow> nat \<Rightarrow> token list \<Rightarrow> nat list outcome"
  eth_get_transaction_count :: "nat \<Rightarrow> address \<Rightarrow> nat outcome"
  sign_transaction :: "nat \<Rightarrow> tx \<Rightarrow> unit outcome"
  send_raw_transaction :: "nat \<Rightarrow> tx \<Rightarrow> bytes outcome"
  wait_for_transaction_receipt :: "nat \<Rightarrow> bytes \<Rightarrow> receipt outcome"
  time_sleep :: "nat \<Rightarrow> unit outcome"

text \<open>
  A computation starts at interaction number \<open>k\<close> and yields its result or the exception
  it raised, the next interaction number, and the events it produced.
\<close>

type_synonym 'a io = "nat \<Rightarrow> (exn + 'a) \<times> nat \<times> event list"

definition io_return :: "'a \<Rightarrow> 'a io" where
  "io_return x = (\<lambda>k. (Inr x, k, []))"

definition io_raise :: "exn \<Rightarrow> 'a io" where
  "io_raise e = (\<lambda>k. (Inl e, k, []))"

definition io_bind :: "'a io \<Rightarrow> ('a \<Rightarrow> 'b io) \<Rightarrow> 'b io" where
  "io_bind m f = (\<lambda>k.
     case m k of
       (Inl e, k1, evs) \<Rightarrow> (Inl e, k1, evs)
     | (Inr x, k1, evs) \<Rightarrow> (case f x k1 of (r, k2, evs') \<Rightarrow> (r, k2, evs @ evs')))"

definition io_seq :: "unit io \<Rightarrow> 'b io \<Rightarrow> 'b io" where
  "io_seq m n = io_bind m (\<lambda>_. n)"

definition io_print :: "message \<Rightarrow> unit io" where
  "io_print m = (\<lambda>k. (Inr (), k, [Print m]))"

definition io_call :: "world \<Rightarrow> request \<Rightarrow> (nat \<Rightarrow> 'a outcome) \<Rightarrow> 'a io" where
  "io_call w rq answer = (\<lambda>k.
     case answer k of
       Returns v \<Rightarrow> (Inr v, Suc k, [Call (clock w k) rq Ok])
     | Raises e \<Rightarrow> (Inl e, Suc k, [Call (clock w k) rq (Failed e)]))"

text \<open>\<^verbatim>\<open>try: m  except Exception as e: h(e)\<close>\<close>

definition io_except :: "'a io \<Rightarrow> (exn \<Rightarrow> 'a io) \<Rightarrow> 'a io" where
  "io_except m h = (\<lambda>k.
     case m k of
       (Inr x, k1, evs) \<Rightarrow> (Inr x, k1, evs)
     | (Inl e, k1, evs) \<Rightarrow>
         (if is_Exception e
          then (case h e k1 of (r, k2, evs') \<Rightarrow> (r, k2, evs @ evs'))
          else (Inl e, k1, evs)))"

text \<open>\<^verbatim>\<open>time.time()\<close>\<close>

definition time_time :: "world \<Rightarrow> real io" where
  "time_time w = (\<lambda>k. (Inr (clock w k), Suc k, [Call (clock w k) Time_time Ok]))"

text \<open>Float division by a divisor that may be zero.\<close>

definition py_truediv :: "real \<Rightarrow> real \<Rightarrow> real io" where
  "py_truediv a b = (if b = 0 then io_raise ZeroDivisionError else io_return (a / b))"

text \<open>\<^verbatim>\<open>xs[-1]\<close>\<close>

definition py_last :: "'a list \<Rightarrow> 'a io" where
  "py_last xs = (if xs = [] then io_raise IndexError else io_return (last xs))"

section \<open>Trading constants\<close>

definition MAX_GAS_PRICE :: real where
  "MAX_GAS_PRICE = 200"

definition MIN_PROFIT_MON :: real where
  "MIN_PROFIT_MON = 15 / 1000"

definition SLIPPAGE :: real where
  "SLIPPAGE = 995 / 1000"

definition MAX_GAS :: nat where
  "MAX_GAS = 300000"

section \<open>Fee rate and position size\<close>

definition get_optimized_gas_price :: "world \<Rightarrow> real io" where
  "get_optimized_gas_price w =
     io_bind (io_call w Eth_gas_price (eth_gas_price w)) (\<lambda>gas_price.
       let current_gas_price = real gas_price / 10 ^ 9
       in io_return (min current_gas_price MAX_GAS_PRICE))"

definition get_dynamic_swap_amount :: "real \<Rightarrow> nat" where
  "get_dynamic_swap_amount price_diff =
     (if price_diff > 2 / 10 then 5 * 10 ^ 18
      else if price_diff > 1 / 10 then 3 * 10 ^ 18
      else 2 * 10 ^ 18)"

section \<open>Quotes\<close>

definition get_price :: "world \<Rightarrow> router \<Rightarrow> token \<Rightarrow> token \<Rightarrow> nat \<Rightarrow> nat io" where
  "get_price w rt token_in token_out amount_in =
     io_except
       (let path = [token_in, token_out] in
        io_bind (io_call w (GetAmountsOut rt amount_in path)
                   (\<lambda>k. getAmountsOut w k rt amount_in path)) (\<lambda>amounts_out.
          py_last amounts_out))
       (\<lambda>e. io_seq (io_print (Msg_price_error e)) (io_return 0))"

section \<open>Submitting a transaction\<close>

text \<open>
  The second definition of \<^verbatim>\<open>build_and_send_tx\<close>, the one bound when a leg runs. Signing
  succeeds or raises; the raw transaction that is sent encodes the content of \<open>t\<close>.
\<close>

definition build_and_send_tx :: "world \<Rightarrow> tx \<Rightarrow> (bytes option \<times> nat) io" where
  "build_and_send_tx w t =
     io_except
       (io_bind (io_call w (Sign_transaction t) (\<lambda>k. sign_transaction w k t)) (\<lambda>signed_tx.
        io_bind (io_call w (Send_raw_transaction t)
                   (\<lambda>k. send_raw_transaction w k t)) (\<lambda>tx_hash.
        io_bind (io_call w (Wait_for_transaction_receipt tx_hash)
                   (\<lambda>k. wait_for_transaction_receipt w k tx_hash)) (\<lambda>rcpt.
          io_return (Some tx_hash, gasUsed rcpt)))))
       (\<lambda>e. io_seq (io_print (Msg_tx_failed e)) (io_return (None, 0)))"

definition execute_exact_eth_for_tokens ::
  "world \<Rightarrow> router \<Rightarrow> int \<Rightarrow> address \<Rightarrow> int \<Rightarrow> nat \<Rightarrow> (bytes option \<times> nat) io" where
  "execute_exact_eth_for_tokens w rt amount_out_min to deadline amount_in =
     io_bind (io_call w (Eth_get_transaction_count (default_account w))
                (\<lambda>k. eth_get_transaction_count w k (default_account w))) (\<lambda>nonce_now.
     io_bind (get_optimized_gas_price w) (\<lambda>gwei.
       let gas_price = to_wei_gwei gwei;
           t = \<lparr> tx_router = rt,
                 tx_call = SwapExactETHForTokens amount_out_min [WRAPPED_MONAD, USDC] to deadline,
                 chainId = chain_id w, gas = MAX_GAS, gasPrice = gas_price,
                 nonce = nonce_now, tx_value = amount_in \<rparr>
       in
       io_bind (build_and_send_tx w t) (\<lambda>(tx_hash, gas_used).
       io_seq (if truthy tx_hash
               then io_seq (io_print Msg_swap_eth_for_tokens_ok)
                           (io_print (Msg_tx_hash (the tx_hash)))
               else io_return ())
              (io_return (tx_hash, gas_used)))))"

definition execute_tokens_for_exact_eth ::
  "world \<Rightarrow> router \<Rightarrow> nat \<Rightarrow> int \<Rightarrow> address \<Rightarrow> int \<Rightarrow> (bytes option \<times> nat) io" where
  "execute_tokens_for_exact_eth w rt amount_out amount_in_max to deadline =
     io_bind (io_call w (Eth_get_transaction_count (default_account w))
                (\<lambda>k. eth_get_transaction_count w k (default_account w))) (\<lambda>nonce_now.
     io_bind (get_optimized_gas_price w) (\<lambda>gwei.
       let gas_price = to_wei_gwei gwei;
           t = \<lparr> tx_router = rt,
                 tx_call = SwapTokensForExactETH amount_out amount_in_max [USDC, WRAPPED_MONAD]
                             to deadline,
                 chainId = chain_id w, gas = MAX_GAS, gasPrice = gas_price,
                 nonce = nonce_now, tx_value = 0 \<rparr>
       in
       io_bind (build_and_send_tx w t) (\<lambda>(tx_hash, gas_used).
       io_seq (if truthy tx_hash
               then io_seq (io_print Msg_swap_tokens_for_eth_ok)
                           (io_print (Msg_tx_hash (the tx_hash)))
               else io_return ())
              (io_return (tx_hash, gas_used)))))"

section \<open>Profit estimate\<close>

record profit_info =
  gas_cost_usdc :: real
  gas_cost_mon :: real
  mon_buyback :: real
  profit_mon :: real
  gas_price_used :: real

text \<open>
  The parameter \<open>gas_price_gwei\<close> is not read by the body; the fee rate is fetched again.
  The divisions by \<^verbatim>\<open>sell_price_usdc/5\<close> and by \<^verbatim>\<open>buy_price_usdc\<close> raise on a zero divisor.
\<close>

definition calculate_mon_profit ::
  "world \<Rightarrow> real \<Rightarrow> real \<Rightarrow> real \<Rightarrow> real \<Rightarrow> profit_info io" where
  "calculate_mon_profit w sell_price_usdc buy_price_usdc amount_mon gas_price_gwei =
     io_bind (get_optimized_gas_price w) (\<lambda>actual_gas_price.
       let gas_cost_wei = MAX_GAS * 2 * to_wei_gwei actual_gas_price;
           gas_cost_usdc_v = (real gas_cost_wei / 10 ^ 18) * (sell_price_usdc / 5)
       in
       io_bind (py_truediv gas_cost_usdc_v (sell_price_usdc / 5)) (\<lambda>gas_cost_mon_v.
       io_bind (py_truediv (amount_mon * (sell_price_usdc - gas_cost_usdc_v)) buy_price_usdc)
         (\<lambda>mon_buyback_v.
       let profit_mon_v = mon_buyback_v - amount_mon
       in io_return \<lparr> gas_cost_usdc = gas_cost_usdc_v,
                       gas_cost_mon = gas_cost_mon_v,
                       mon_buyback = mon_buyback_v,
                       profit_mon = profit_mon_v,
                       gas_price_used = actual_gas_price \<rparr>)))"

section \<open>The two-leg executor\<close>

definition execute_arbitrage :: "world \<Rightarrow> router \<Rightarrow> router \<Rightarrow> real \<Rightarrow> bool io" where
  "execute_arbitrage w high_price_router low_price_router price_diff_usdc =
     io_bind (time_time w) (\<lambda>now.
       let deadline = py_int now + 60;
           account = default_account w;
           swap_amount = get_dynamic_swap_amount price_diff_usdc
       in
       io_seq (io_print Msg_executing) (
       io_seq (io_print (Msg_selling (real swap_amount / 10 ^ 18))) (
       io_bind (execute_exact_eth_for_tokens w high_price_router
                  (py_int (real swap_amount * price_diff_usdc * SLIPPAGE))
                  account deadline swap_amount) (\<lambda>(tx_hash1, gas1).
       if truthy tx_hash1 then
         io_seq (io_print (Msg_buying_back (real swap_amount / 10 ^ 18))) (
         io_bind (execute_tokens_for_exact_eth w low_price_router
                    swap_amount
                    (py_int (real swap_amount * price_diff_usdc / SLIPPAGE))
                    account deadline) (\<lambda>(tx_hash2, gas2).
         if truthy tx_hash2 then
           io_seq (io_print Msg_arbitrage_ok) (
           io_seq (io_print (Msg_tx_hash (the tx_hash1))) (
           io_seq (io_print (Msg_tx_hash (the tx_hash2))) (
           io_return True)))
         else
           io_seq (io_print Msg_arbitrage_failed) (io_return False)))
       else
         io_seq (io_print Msg_arbitrage_failed) (io_return False)))))"

section \<open>The evaluation cycle\<close>

text \<open>
  The script defines \<^verbatim>\<open>check_arbitrage_opportunity\<close> twice and has two main blocks. The
  first main block runs while \<^verbatim>\<open>get_price\<close> is not yet defined, so its first cycle
  ends in its own handler and the script goes on to the later definitions. This is the
  second definition, the one the poll loop of the last main block calls.
\<close>

definition check_arbitrage_opportunity :: "world \<Rightarrow> unit io" where
  "check_arbitrage_opportunity w =
     io_bind (get_optimized_gas_price w) (\<lambda>current_gas_price.
     io_bind (get_price w Uniswap_router WRAPPED_MONAD USDC (5 * 10 ^ 18)) (\<lambda>price_uniswap.
     io_bind (get_price w Crystal_router WRAPPED_MONAD USDC (5 * 10 ^ 18)) (\<lambda>price_crystal.
       let price_uniswap_usdc = real price_uniswap / 10 ^ 6;
           price_crystal_usdc = real price_crystal / 10 ^ 6;
           price_diff_usdc = \<bar>price_uniswap_usdc - price_crystal_usdc\<bar> / 5;
           swap_amount = get_dynamic_swap_amount price_diff_usdc
       in
       io_bind (if price_uniswap_usdc > price_crystal_usdc
                then calculate_mon_profit w price_uniswap_usdc price_crystal_usdc
                       (real swap_amount / 10 ^ 18) current_gas_price
                else calculate_mon_profit w price_crystal_usdc price_uniswap_usdc
                       (real swap_amount / 10 ^ 18) current_gas_price) (\<lambda>info.
       io_seq (io_print (Msg_gas_price current_gas_price)) (
       io_seq (io_print (Msg_swap_amount (real swap_amount / 10 ^ 18))) (
       io_seq (io_print (Msg_profit (profit_mon info))) (
       if profit_mon info \<ge> MIN_PROFIT_MON then
         io_seq (io_print Msg_threshold_exceeded) (
           if price_uniswap_usdc > price_crystal_usdc
           then io_bind (execute_arbitrage w Uniswap_router Crystal_router price_uniswap_usdc)
                  (\<lambda>_. io_return ())
           else io_bind (execute_arbitrage w Crystal_router Uniswap_router price_crystal_usdc)
                  (\<lambda>_. io_return ()))
       else
         io_print Msg_skip)))))))"

section \<open>The poll loop and the main block\<close>

text \<open>
  \<^verbatim>\<open>while True: check_arbitrage_opportunity(); time.sleep(20)\<close> has no exit of its own.
  \<open>poll_loop w n\<close> runs its first \<open>n\<close> iterations: it yields \<open>Inr ()\<close> when all of them
  completed, so that the loop is about to start iteration \<open>n + 1\<close>, and \<open>Inl e\<close> when
  one of them raised \<open>e\<close>.
\<close>

fun poll_loop :: "world \<Rightarrow> nat \<Rightarrow> unit io" where
  "poll_loop w 0 = io_return ()"
| "poll_loop w (Suc n) =
     io_bind (check_arbitrage_opportunity w) (\<lambda>_.
     io_bind (io_call w (Time_sleep 20) (time_sleep w)) (\<lambda>_.
       poll_loop w n))"

datatype process = Polling | Exited

text \<open>
  The last main block, observed for \<open>n\<close> iterations of its loop. The lines it prints
  before the loop are one message. Both handlers print and fall off the end of the
  script, which ends the process.
\<close>

definition main :: "world \<Rightarrow> nat \<Rightarrow> nat \<Rightarrow> process \<times> nat \<times> event list" where
  "main w n k =
     (case io_bind (io_call w Account_from_key (account_from_key w)) (\<lambda>account.
             io_seq (io_print Msg_started) (poll_loop w n)) k of
        (Inr u, k1, evs) \<Rightarrow> (Polling, k1, evs)
      | (Inl e, k1, evs) \<Rightarrow>
          (if e = KeyboardInterrupt then (Exited, k1, evs @ [Print Msg_stopped])
           else (Exited, k1, evs @ [Print (Msg_critical e)])))"

section \<open>Reading a trace\<close>

text \<open>
  Leg 1 is the sale through \<^verbatim>\<open>swapExactETHForTokens\<close>, leg 2 the buyback through
  \<^verbatim>\<open>swapTokensForExactETH\<close>. A leg is submitted by \<^verbatim>\<open>send_raw_transaction\<close>;
  \<open>submissions\<close> lists the transactions handed to it, with the time of the call.
\<close>

datatype leg = Leg1 | Leg2

fun leg_of :: "tx \<Rightarrow> leg" where
  "leg_of t = (case tx_call t of SwapExactETHForTokens _ _ _ _ \<Rightarrow> Leg1
                              | SwapTokensForExactETH _ _ _ _ _ \<Rightarrow> Leg2)"

fun deadline_of :: "tx \<Rightarrow> int" where
  "deadline_of t = (case tx_call t of SwapExactETHForTokens _ _ _ d \<Rightarrow> d
                                   | SwapTokensForExactETH _ _ _ _ d \<Rightarrow> d)"

fun submissions :: "event list \<Rightarrow> (real \<times> tx) list" where
  "submissions [] = []"
| "submissions (Call t (Send_raw_transaction x) r # evs) = (t, x) # submissions evs"
| "submissions (ev # evs) = submissions evs"

text \<open>The amount of MON a leg trades: what leg 1 sells, what leg 2 buys back.\<close>

fun traded_amount :: "tx \<Rightarrow> nat" where
  "traded_amount t = (case tx_call t of SwapExactETHForTokens _ _ _ _ \<Rightarrow> tx_value t
                                     | SwapTokensForExactETH amount_out _ _ _ _ \<Rightarrow> amount_out)"


section \<open>Postconditions\<close>

text \<open>
  \<open>io_post m k Q\<close>: the run of \<open>m\<close> from interaction \<open>k\<close> ends in a result, a next
  interaction number and a trace that satisfy \<open>Q\<close>.
\<close>

definition io_post :: "'a io \<Rightarrow> nat \<Rightarrow> ((exn + 'a) \<Rightarrow> nat \<Rightarrow> event list \<Rightarrow> bool) \<Rightarrow> bool" where
  "io_post m k Q = (case m k of (r, k', evs) \<Rightarrow> Q r k' evs)"

section \<open>Example environments\<close>

text \<open>
  A node that always answers: the fee rate is 1 gwei, Uniswap quotes 10 USDC and Crystal
  9.9 USDC for 5 MON, every transaction is mined, and each interaction takes one second.
\<close>

definition calm_world :: world where
  "calm_world = \<lparr> clock = (\<lambda>k. 1000 + real k),
          default_account = ''bot'',
          chain_id = 10143,
          account_from_key = (\<lambda>k. Returns ''bot''),
          eth_gas_price = (\<lambda>k. Returns 1000000000),
          getAmountsOut = (\<lambda>k rt a p. if rt = Uniswap_router then Returns [a, 10000000] else Returns [a, 9900000]),
          eth_get_transaction_count = (\<lambda>k a. Returns 7),
          sign_transaction = (\<lambda>k t. Returns ()),
          send_raw_transaction = (\<lambda>k t. Returns [k]),
          wait_for_transaction_receipt = (\<lambda>k h. Returns \<lparr> gasUsed = 100000, status = 1 \<rparr>),
          time_sleep = (\<lambda>k. Returns ()) \<rparr>"

text \<open>The same node when the confirmation of leg 1 takes a hundred seconds.\<close>

definition slow_confirmation_world :: world where
  "slow_confirmation_world = calm_world \<lparr> clock := (\<lambda>k. if k \<le> 5 then 1000 + real k else 1100 + real k) \<rparr>"

text \<open>The same node when it rejects every raw transaction.\<close>

definition rejecting_world :: world where
  "rejecting_world = calm_world \<lparr> send_raw_transaction := (\<lambda>k t. Raises (OtherException ''rejected'')) \<rparr>"


text \<open>The same node when the user interrupts every sleep.\<close>

definition interrupted_world :: world where
  "interrupted_world = calm_world \<lparr> time_sleep := (\<lambda>k. Raises KeyboardInterrupt) \<rparr>"

text \<open>The same node when the quote call to Crystal times out.\<close>

definition crystal_outage_world :: world where
  "crystal_outage_world = calm_world \<lparr> getAmountsOut := (\<lambda>k rt a p.
      if rt = Uniswap_router then Returns [a, 10000000] else Raises (OtherException ''timeout'')) \<rparr>"

text \<open>The same node when the network fee rate spikes to 500 gwei.\<close>

definition spike_world :: world where
  "spike_world = calm_world \<lparr> eth_gas_price := (\<lambda>k. Returns (500 * 10 ^ 9)) \<rparr>"

text \<open>The same node when the fee rate can no longer be read from interaction 17 on.\<close>

definition rate_outage_world :: world where
  "rate_outage_world = calm_world \<lparr> eth_gas_price := (\<lambda>k.
      if k < 17 then Returns 1000000000 else Raises (OtherException ''unavailable'')) \<rparr>"


section \<open>Rules for postconditions\<close>

lemma io_post_return: "io_post (io_return x) k Q = Q (Inr x) k []"
  by (simp add: io_post_def io_return_def)

lemma io_post_raise: "io_post (io_raise e) k Q = Q (Inl e) k []"
  by (simp add: io_post_def io_raise_def)

lemma io_post_print: "io_post (io_print m) k Q = Q (Inr ()) k [Print m]"
  by (simp add: io_post_def io_print_def)

lemma io_post_time: "io_post (time_time w) k Q = Q (Inr (clock w k)) (Suc k) [Call (clock w k) Time_time Ok]"
  by (simp add: io_post_def time_time_def)

lemma io_post_call:
  "io_post (io_call w rq a) k Q =
     (case a k of Returns v \<Rightarrow> Q (Inr v) (Suc k) [Call (clock w k) rq Ok]
               | Raises e \<Rightarrow> Q (Inl e) (Suc k) [Call (clock w k) rq (Failed e)])"
  by (simp add: io_post_def io_call_def split: outcome.splits)

lemma io_post_bind:
  "io_post (io_bind m f) k Q =
     io_post m k (\<lambda>r k1 evs. case r of Inl e \<Rightarrow> Q (Inl e) k1 evs
                             | Inr x \<Rightarrow> io_post (f x) k1 (\<lambda>r' k2 evs'. Q r' k2 (evs @ evs')))"
  by (simp add: io_post_def io_bind_def split: prod.splits sum.splits)

lemma io_post_seq:
  "io_post (io_seq m n) k Q =
     io_post m k (\<lambda>r k1 evs. case r of Inl e \<Rightarrow> Q (Inl e) k1 evs
                             | Inr x \<Rightarrow> io_post n k1 (\<lambda>r' k2 evs'. Q r' k2 (evs @ evs')))"
  by (simp add: io_seq_def io_post_bind)

lemma io_post_except:
  "io_post (io_except m h) k Q =
     io_post m k (\<lambda>r k1 evs. case r of Inr x \<Rightarrow> Q (Inr x) k1 evs
                             | Inl e \<Rightarrow> if is_Exception e
                                 then io_post (h e) k1 (\<lambda>r' k2 evs'. Q r' k2 (evs @ evs'))
                                 else Q (Inl e) k1 evs)"
  by (simp add: io_post_def io_except_def split: prod.splits sum.splits)

lemma io_post_if: "io_post (if c then m else n) k Q = (if c then io_post m k Q else io_post n k Q)"
  by simp

lemma io_post_mono:
  "io_post m k Q' \<Longrightarrow> (\<And>r k' evs. Q' r k' evs \<Longrightarrow> Q r k' evs) \<Longrightarrow> io_post m k Q"
  by (auto simp: io_post_def split: prod.splits)

lemma io_postI: "(\<And>r k' evs. m k = (r, k', evs) \<Longrightarrow> Q r k' evs) \<Longrightarrow> io_post m k Q"
  by (auto simp: io_post_def split: prod.splits)

lemma io_postD: "io_post m k Q \<Longrightarrow> m k = (r, k', evs) \<Longrightarrow> Q r k' evs"
  by (auto simp: io_post_def split: prod.splits)

lemmas io_post_simps = io_post_return io_post_raise io_post_print io_post_time io_post_call
  io_post_bind io_post_seq io_post_except io_post_if






text \<open>Unfolding everything evaluates a run in a concrete environment.\<close>

lemmas eval_defs = check_arbitrage_opportunity_def get_optimized_gas_price_def get_price_def
  io_bind_def io_call_def io_except_def io_seq_def io_print_def io_return_def io_raise_def
  py_last_def calculate_mon_profit_def py_truediv_def Let_def is_Exception_def
  get_dynamic_swap_amount_def MAX_GAS_PRICE_def to_wei_gwei_def py_int_def MAX_GAS_def
  execute_arbitrage_def execute_exact_eth_for_tokens_def execute_tokens_for_exact_eth_def
  build_and_send_tx_def time_time_def truthy_def MIN_PROFIT_MON_def SLIPPAGE_def

lemmas exec_defs = execute_arbitrage_def execute_exact_eth_for_tokens_def
  execute_tokens_for_exact_eth_def build_and_send_tx_def

section \<open>Fee rate, quotes and profit estimate: what a run yields\<close>

lemma get_optimized_gas_price_post:
  "io_post (get_optimized_gas_price w) k Q =
    (case eth_gas_price w k of
       Returns g \<Rightarrow> Q (Inr (min (real g / 10 ^ 9) MAX_GAS_PRICE)) (Suc k) [Call (clock w k) Eth_gas_price Ok]
     | Raises e \<Rightarrow> Q (Inl e) (Suc k) [Call (clock w k) Eth_gas_price (Failed e)])"
  by (simp add: get_optimized_gas_price_def io_post_simps Let_def split: outcome.splits)

lemma get_price_post:
  "io_post (get_price w rt tin tout a) k Q =
    (case getAmountsOut w k rt a [tin, tout] of
       Returns xs \<Rightarrow>
         if xs = [] then Q (Inr 0) (Suc k) [Call (clock w k) (GetAmountsOut rt a [tin, tout]) Ok, Print (Msg_price_error IndexError)]
         else Q (Inr (last xs)) (Suc k) [Call (clock w k) (GetAmountsOut rt a [tin, tout]) Ok]
     | Raises e \<Rightarrow>
         if is_Exception e then Q (Inr 0) (Suc k) [Call (clock w k) (GetAmountsOut rt a [tin, tout]) (Failed e), Print (Msg_price_error e)]
         else Q (Inl e) (Suc k) [Call (clock w k) (GetAmountsOut rt a [tin, tout]) (Failed e)])"
  by (simp add: get_price_def io_post_simps py_last_def Let_def is_Exception_def split: outcome.splits)

lemma py_int_of_nat: "py_int (real n) = int n"
  by (simp add: py_int_def)

lemma to_wei_gwei_clamped:
  "to_wei_gwei (min (real g / 10 ^ 9) MAX_GAS_PRICE) = min g (200 * 10 ^ 9)"
proof -
  have "min (real g / 10 ^ 9) MAX_GAS_PRICE * 10 ^ 9 = real (min g (200 * 10 ^ 9))"
    by (simp add: MAX_GAS_PRICE_def min_def)
  then show ?thesis
    by (simp only: to_wei_gwei_def py_int_of_nat nat_int)
qed

lemma calculate_mon_profit_post:
  "io_post (calculate_mon_profit w sell buy amount g0) k Q =
    (case eth_gas_price w k of
       Raises e \<Rightarrow> Q (Inl e) (Suc k) [Call (clock w k) Eth_gas_price (Failed e)]
     | Returns g \<Rightarrow>
         if sell / 5 = 0 \<or> buy = 0
         then Q (Inl ZeroDivisionError) (Suc k) [Call (clock w k) Eth_gas_price Ok]
         else Q (Inr \<lparr> gas_cost_usdc = (real (MAX_GAS * 2 * to_wei_gwei (min (real g / 10 ^ 9) MAX_GAS_PRICE)) / 10 ^ 18) * (sell / 5),
                        gas_cost_mon = (real (MAX_GAS * 2 * to_wei_gwei (min (real g / 10 ^ 9) MAX_GAS_PRICE)) / 10 ^ 18) * (sell / 5) / (sell / 5),
                        mon_buyback = amount * (sell - (real (MAX_GAS * 2 * to_wei_gwei (min (real g / 10 ^ 9) MAX_GAS_PRICE)) / 10 ^ 18) * (sell / 5)) / buy,
                        profit_mon = amount * (sell - (real (MAX_GAS * 2 * to_wei_gwei (min (real g / 10 ^ 9) MAX_GAS_PRICE)) / 10 ^ 18) * (sell / 5)) / buy - amount,
                        gas_price_used = min (real g / 10 ^ 9) MAX_GAS_PRICE \<rparr>)
                (Suc k) [Call (clock w k) Eth_gas_price Ok])"
  by (cases "eth_gas_price w k"; cases "sell / 5 = 0"; cases "buy = 0")
     (simp_all only: calculate_mon_profit_def io_post_bind get_optimized_gas_price_post
        py_truediv_def io_post_return io_post_raise io_post_if Let_def
        outcome.case sum.case if_True if_False simp_thms append.simps)

section \<open>Position sizer\<close>

text \<open>
  C8: the position sizer is a three-tier step function with strict lower bounds: a
  deviation above 0.2 selects 5 MON, one above 0.1 (and at most 0.2) selects 3 MON, any
  other selects 2 MON; and it is monotonic: for deviations \<open>d1 < d2\<close> the size for \<open>d1\<close>
  is at most the size for \<open>d2\<close>. Being a function of the deviation alone, it is
  deterministic and has no effect.
\<close>

theorem get_dynamic_swap_amount_tiers_monotone:
  "(2 / 10 < a \<longrightarrow> get_dynamic_swap_amount a = 5 * 10 ^ 18) \<and>
   (1 / 10 < b \<and> b \<le> 2 / 10 \<longrightarrow> get_dynamic_swap_amount b = 3 * 10 ^ 18) \<and>
   (c \<le> 1 / 10 \<longrightarrow> get_dynamic_swap_amount c = 2 * 10 ^ 18) \<and>
   (d1 < d2 \<longrightarrow> get_dynamic_swap_amount d1 \<le> get_dynamic_swap_amount d2)"
  by (simp add: get_dynamic_swap_amount_def)

theorem get_dynamic_swap_amount_tiers_monotone_witness:
  "get_dynamic_swap_amount (25 / 100) = 5 * 10 ^ 18 \<and>
   get_dynamic_swap_amount (2 / 10) = 3 * 10 ^ 18 \<and>
   get_dynamic_swap_amount (1 / 10) = 2 * 10 ^ 18 \<and>
   get_dynamic_swap_amount (1 / 10) \<le> get_dynamic_swap_amount (3 / 10)"
  using get_dynamic_swap_amount_tiers_monotone [of "25 / 100" "2 / 10" "1 / 10" "1 / 10" "3 / 10"]
  by simp

section \<open>Profit estimate\<close>

text \<open>
  C9: for prices \<open>sell > buy > 0\<close> (the arguments of \<^verbatim>\<open>calculate_mon_profit\<close>), every
  size and every fee rate the network reports, the estimate is computed: the fee rate
  used is the network's rate clamped to the ceiling; the gas cost in MON is the per-leg
  gas budget times 2 legs times that rate (in wei, over \<open>10^18\<close>), and in USDC it is
  that cost at \<open>sell / 5\<close> USDC per MON; the buyback is
  \<open>size * (sell - gas cost in USDC) / buy\<close>; the profit is the buyback minus the size.
\<close>

theorem calculate_mon_profit_formula:
  assumes "0 < buy" and "buy < sell" and "eth_gas_price w k = Returns g"
  shows "\<exists>info evs.
     calculate_mon_profit w sell buy amount g0 k = (Inr info, Suc k, evs) \<and>
     gas_price_used info = min (real g / 10 ^ 9) MAX_GAS_PRICE \<and>
     gas_cost_mon info = real (MAX_GAS * 2 * to_wei_gwei (gas_price_used info)) / 10 ^ 18 \<and>
     gas_cost_usdc info = gas_cost_mon info * (sell / 5) \<and>
     mon_buyback info = amount * (sell - gas_cost_usdc info) / buy \<and>
     profit_mon info = mon_buyback info - amount"
proof -
  from assms have nz: "sell \<noteq> 0" "buy \<noteq> 0" by simp_all
  have "io_post (calculate_mon_profit w sell buy amount g0) k (\<lambda>r k' evs.
     \<exists>info. r = Inr info \<and> k' = Suc k \<and>
     gas_price_used info = min (real g / 10 ^ 9) MAX_GAS_PRICE \<and>
     gas_cost_mon info = real (MAX_GAS * 2 * to_wei_gwei (gas_price_used info)) / 10 ^ 18 \<and>
     gas_cost_usdc info = gas_cost_mon info * (sell / 5) \<and>
     mon_buyback info = amount * (sell - gas_cost_usdc info) / buy \<and>
     profit_mon info = mon_buyback info - amount)"
    using assms(3) nz by (simp add: calculate_mon_profit_post)
  then show ?thesis
    by (cases "calculate_mon_profit w sell buy amount g0 k") (auto simp: io_post_def)
qed

theorem calculate_mon_profit_formula_witness:
  "\<exists>info evs.
     calculate_mon_profit calm_world 10 (99 / 10) 2 1 0 = (Inr info, Suc 0, evs) \<and>
     gas_price_used info = 1 \<and>
     gas_cost_mon info = 6 / 10000 \<and>
     gas_cost_usdc info = 12 / 10000 \<and>
     mon_buyback info = 2 * (10 - 12 / 10000) / (99 / 10) \<and>
     profit_mon info = 247 / 12375"
proof -
  have g: "eth_gas_price calm_world 0 = Returns 1000000000"
    by (simp add: calm_world_def)
  from calculate_mon_profit_formula [of "99 / 10" 10 calm_world 0 1000000000 2 1] g
  obtain info evs where
    "calculate_mon_profit calm_world 10 (99 / 10) 2 1 0 = (Inr info, Suc 0, evs)"
    "gas_price_used info = min (real 1000000000 / 10 ^ 9) MAX_GAS_PRICE"
    "gas_cost_mon info = real (MAX_GAS * 2 * to_wei_gwei (gas_price_used info)) / 10 ^ 18"
    "gas_cost_usdc info = gas_cost_mon info * (10 / 5)"
    "mon_buyback info = 2 * (10 - gas_cost_usdc info) / (99 / 10)"
    "profit_mon info = mon_buyback info - 2"
    by auto
  then show ?thesis
    by (intro exI [of _ info] exI [of _ evs])
       (simp add: MAX_GAS_PRICE_def MAX_GAS_def to_wei_gwei_def py_int_def)
qed

section \<open>Quote source\<close>

text \<open>
  C10, as amended: for every venue, path and input amount the quote function makes one
  call to the router and never raises an \<^verbatim>\<open>Exception\<close>: it returns the last element of
  the result of \<^verbatim>\<open>getAmountsOut\<close>, and 0 when the call raises an \<^verbatim>\<open>Exception\<close> or the
  result is empty, so that a failed quote and a zero quote look the same to the caller.
  \<^verbatim>\<open>KeyboardInterrupt\<close> is not caught and passes through.
\<close>

theorem get_price_absorbs_Exceptions:
  "\<exists>evs. get_price w rt tin tout a k =
     (case getAmountsOut w k rt a [tin, tout] of
        Returns xs \<Rightarrow> Inr (if xs = [] then 0 else last xs)
      | Raises e \<Rightarrow> if is_Exception e then Inr 0 else Inl e,
      Suc k, evs)"
proof -
  have "io_post (get_price w rt tin tout a) k (\<lambda>r k' evs. k' = Suc k \<and> r =
     (case getAmountsOut w k rt a [tin, tout] of
        Returns xs \<Rightarrow> Inr (if xs = [] then 0 else last xs)
      | Raises e \<Rightarrow> if is_Exception e then Inr 0 else Inl e))"
    by (simp add: get_price_post split: outcome.splits)
  then show ?thesis
    by (cases "get_price w rt tin tout a k") (auto simp: io_post_def)
qed

text \<open>
  C10 as stated (the quote function never raises) fails when the user interrupts the
  process during the call to the router: \<^verbatim>\<open>except Exception\<close> lets the interrupt through.
\<close>

theorem get_price_interrupt_counterexample:
  "fst (get_price (calm_world\<lparr> getAmountsOut := (\<lambda>k rt a p. Raises KeyboardInterrupt) \<rparr>)
          Uniswap_router WRAPPED_MONAD USDC (5 * 10 ^ 18) 0) = Inl KeyboardInterrupt"
  using io_postD [of "get_price (calm_world\<lparr> getAmountsOut := (\<lambda>k rt a p. Raises KeyboardInterrupt) \<rparr>)
          Uniswap_router WRAPPED_MONAD USDC (5 * 10 ^ 18)" 0 "\<lambda>r k evs. r = Inl KeyboardInterrupt"]
  by (cases "get_price (calm_world\<lparr> getAmountsOut := (\<lambda>k rt a p. Raises KeyboardInterrupt) \<rparr>)
          Uniswap_router WRAPPED_MONAD USDC (5 * 10 ^ 18) 0")
     (simp add: get_price_post is_Exception_def)


section \<open>The executor: order of the legs\<close>









section \<open>The executor: deadlines\<close>

lemma execute_arbitrage_deadline:
  "io_post (execute_arbitrage w hi lo p) k (\<lambda>r k' evs.
     \<forall>(t, x)\<in>set (submissions evs). deadline_of x = py_int (clock w k) + 60)"
  by (simp add: exec_defs io_post_simps get_optimized_gas_price_post Let_def truthy_def
      split: outcome.splits)

lemma py_int_gt: "x - 1 < real_of_int (py_int x)"
  by (simp add: py_int_def) linarith

text \<open>
  C5, as amended: in every execution attempt each submitted leg carries the one deadline
  \<^verbatim>\<open>int(time.time()) + 60\<close> computed when the attempt starts; that value is strictly
  (more than 59 seconds) after the clock reading it was computed from, and leg 2 is
  given the same value as leg 1.
\<close>

theorem one_deadline_for_both_legs:
  assumes run: "execute_arbitrage w hi lo p k = (r, k', evs)"
    and sent: "(t, x) \<in> set (submissions evs)"
  shows "deadline_of x = py_int (clock w k) + 60 \<and> clock w k + 59 < real_of_int (deadline_of x)"
proof -
  from io_postD [OF execute_arbitrage_deadline run] sent
  have d: "deadline_of x = py_int (clock w k) + 60" by blast
  from py_int_gt [of "clock w k"] have "clock w k + 59 < real_of_int (py_int (clock w k) + 60)"
    by simp
  with d show ?thesis by simp
qed

theorem one_deadline_for_both_legs_witness:
  "\<exists>t x. (t, x) \<in> set (submissions (snd (snd
       (execute_arbitrage slow_confirmation_world Uniswap_router Crystal_router 10 0)))) \<and>
     leg_of x = Leg2 \<and>
     deadline_of x = py_int (clock slow_confirmation_world 0) + 60 \<and>
     clock slow_confirmation_world 0 + 59 < real_of_int (deadline_of x)"
proof -
  obtain r k' evs where run:
    "execute_arbitrage slow_confirmation_world Uniswap_router Crystal_router 10 0 = (r, k', evs)"
    by (cases "execute_arbitrage slow_confirmation_world Uniswap_router Crystal_router 10 0")
  have "\<exists>p\<in>set (submissions evs). leg_of (snd p) = Leg2"
    using run by (auto simp: slow_confirmation_world_def calm_world_def eval_defs)
  then obtain t x where sent: "(t, x) \<in> set (submissions evs)" and leg2: "leg_of x = Leg2"
    by auto
  from one_deadline_for_both_legs [OF run sent] sent leg2 run
  show ?thesis by auto
qed

text \<open>
  C5 as stated fails when leg 1 takes long to confirm: the attempt starts at 1000, leg 1
  is submitted at 1004 with deadline 1060, and leg 2 is submitted at 1109 with the same
  deadline 1060, which is then in the past and was not recomputed.
\<close>

theorem leg2_deadline_counterexample:
  "map (\<lambda>(t, x). (leg_of x, t, deadline_of x))
     (submissions (snd (snd
        (execute_arbitrage slow_confirmation_world Uniswap_router Crystal_router 10 0)))) =
   [(Leg1, 1004, 1060), (Leg2, 1109, 1060)]"
  by (simp add: slow_confirmation_world_def calm_world_def eval_defs)


section \<open>Fee rate\<close>

lemma execute_arbitrage_fee:
  "io_post (execute_arbitrage w hi lo p) k (\<lambda>r k' evs.
     \<forall>(t, x)\<in>set (submissions evs).
        (case leg_of x of
           Leg1 \<Rightarrow> Suc (Suc k) < k' \<and> (case eth_gas_price w (Suc (Suc k)) of
                      Returns g \<Rightarrow> gasPrice x = to_wei_gwei (min (real g / 10 ^ 9) MAX_GAS_PRICE)
                    | Raises e \<Rightarrow> False)
         | Leg2 \<Rightarrow> Suc (Suc (Suc (Suc (Suc (Suc (Suc k)))))) < k' \<and>
                   (case eth_gas_price w (Suc (Suc (Suc (Suc (Suc (Suc (Suc k))))))) of
                      Returns g \<Rightarrow> gasPrice x = to_wei_gwei (min (real g / 10 ^ 9) MAX_GAS_PRICE)
                    | Raises e \<Rightarrow> False)))"
  by (simp add: exec_defs io_post_simps get_optimized_gas_price_post Let_def truthy_def
      split: outcome.splits)

text \<open>
  C7: whatever rate the network reports, the fee rate is the minimum of that rate (in
  gwei) and the ceiling \<open>MAX_GAS_PRICE\<close>: this is what \<^verbatim>\<open>get_optimized_gas_price\<close>
  returns, what the cost estimate records as the rate it used, and what both legs'
  transactions carry as \<^verbatim>\<open>gasPrice\<close> (in wei, from a reading taken during the attempt);
  so no transaction pays more than 200 gwei.
\<close>

theorem fee_rate_is_clamped:
  "(eth_gas_price w k = Returns g \<longrightarrow>
      fst (get_optimized_gas_price w k) = Inr (min (real g / 10 ^ 9) MAX_GAS_PRICE) \<and>
      min (real g / 10 ^ 9) MAX_GAS_PRICE \<le> MAX_GAS_PRICE) \<and>
   (calculate_mon_profit w sell buy amount g0 k = (Inr info, k1, evs1) \<longrightarrow>
      (\<exists>g. eth_gas_price w k = Returns g \<and>
           gas_price_used info = min (real g / 10 ^ 9) MAX_GAS_PRICE)) \<and>
   (execute_arbitrage w hi lo p k = (r, k2, evs2) \<and> (t, x) \<in> set (submissions evs2) \<longrightarrow>
      (\<exists>j g. k \<le> j \<and> j < k2 \<and> eth_gas_price w j = Returns g \<and>
             gasPrice x = to_wei_gwei (min (real g / 10 ^ 9) MAX_GAS_PRICE) \<and>
             gasPrice x \<le> 200 * 10 ^ 9))"
proof (intro conjI impI)
  assume g: "eth_gas_price w k = Returns g"
  have "io_post (get_optimized_gas_price w) k
          (\<lambda>r k' evs. r = Inr (min (real g / 10 ^ 9) MAX_GAS_PRICE))"
    using g by (simp add: get_optimized_gas_price_post)
  then show "fst (get_optimized_gas_price w k) = Inr (min (real g / 10 ^ 9) MAX_GAS_PRICE)"
    by (cases "get_optimized_gas_price w k") (simp add: io_post_def)
  show "min (real g / 10 ^ 9) MAX_GAS_PRICE \<le> MAX_GAS_PRICE"
    by simp
next
  assume run: "calculate_mon_profit w sell buy amount g0 k = (Inr info, k1, evs1)"
  have "io_post (calculate_mon_profit w sell buy amount g0) k (\<lambda>r k' evs.
          \<forall>i. r = Inr i \<longrightarrow> (\<exists>g. eth_gas_price w k = Returns g \<and>
             gas_price_used i = min (real g / 10 ^ 9) MAX_GAS_PRICE))"
    by (simp add: calculate_mon_profit_post split: outcome.splits)
  from io_postD [OF this run]
  show "\<exists>g. eth_gas_price w k = Returns g \<and>
           gas_price_used info = min (real g / 10 ^ 9) MAX_GAS_PRICE"
    by simp
next
  assume "execute_arbitrage w hi lo p k = (r, k2, evs2) \<and> (t, x) \<in> set (submissions evs2)"
  then have run: "execute_arbitrage w hi lo p k = (r, k2, evs2)"
    and sent: "(t, x) \<in> set (submissions evs2)" by simp_all
  from bspec [OF io_postD [OF execute_arbitrage_fee run] sent]
  have c: "case leg_of x of
           Leg1 \<Rightarrow> Suc (Suc k) < k2 \<and> (case eth_gas_price w (Suc (Suc k)) of
                      Returns g \<Rightarrow> gasPrice x = to_wei_gwei (min (real g / 10 ^ 9) MAX_GAS_PRICE)
                    | Raises e \<Rightarrow> False)
         | Leg2 \<Rightarrow> Suc (Suc (Suc (Suc (Suc (Suc (Suc k)))))) < k2 \<and>
                   (case eth_gas_price w (Suc (Suc (Suc (Suc (Suc (Suc (Suc k))))))) of
                      Returns g \<Rightarrow> gasPrice x = to_wei_gwei (min (real g / 10 ^ 9) MAX_GAS_PRICE)
                    | Raises e \<Rightarrow> False)"
    by simp
  have "\<exists>j g. k \<le> j \<and> j < k2 \<and> eth_gas_price w j = Returns g \<and>
             gasPrice x = to_wei_gwei (min (real g / 10 ^ 9) MAX_GAS_PRICE)"
  proof (cases "leg_of x")
    case Leg1
    with c obtain g where "Suc (Suc k) < k2" "eth_gas_price w (Suc (Suc k)) = Returns g"
      "gasPrice x = to_wei_gwei (min (real g / 10 ^ 9) MAX_GAS_PRICE)"
      by (cases "eth_gas_price w (Suc (Suc k))") auto
    then show ?thesis by (intro exI [of _ "Suc (Suc k)"] exI [of _ g]) simp
  next
    case Leg2
    with c obtain g where "Suc (Suc (Suc (Suc (Suc (Suc (Suc k)))))) < k2"
      "eth_gas_price w (Suc (Suc (Suc (Suc (Suc (Suc (Suc k))))))) = Returns g"
      "gasPrice x = to_wei_gwei (min (real g / 10 ^ 9) MAX_GAS_PRICE)"
      by (cases "eth_gas_price w (Suc (Suc (Suc (Suc (Suc (Suc (Suc k)))))))") auto
    then show ?thesis
      by (intro exI [of _ "Suc (Suc (Suc (Suc (Suc (Suc (Suc k))))))"] exI [of _ g]) simp
  qed
  then obtain j g where j: "k \<le> j" "j < k2" "eth_gas_price w j = Returns g"
    and gp: "gasPrice x = to_wei_gwei (min (real g / 10 ^ 9) MAX_GAS_PRICE)" by blast
  from gp have "gasPrice x \<le> 200 * 10 ^ 9"
    by (simp only: to_wei_gwei_clamped)
  with j gp show "\<exists>j g. k \<le> j \<and> j < k2 \<and> eth_gas_price w j = Returns g \<and>
             gasPrice x = to_wei_gwei (min (real g / 10 ^ 9) MAX_GAS_PRICE) \<and>
             gasPrice x \<le> 200 * 10 ^ 9"
    by blast
qed


theorem fee_rate_is_clamped_witness:
  "fst (get_optimized_gas_price spike_world 0) = Inr 200 \<and>
   (\<exists>info. fst (calculate_mon_profit spike_world 10 (99 / 10) 2 1 0) = Inr info \<and>
      gas_price_used info = 200) \<and>
   (\<exists>t x. (t, x) \<in> set (submissions (snd (snd
        (execute_arbitrage spike_world Uniswap_router Crystal_router 10 0)))) \<and>
      gasPrice x = 200 * 10 ^ 9)"
proof -
  have g: "\<And>j. eth_gas_price spike_world j = Returns (500 * 10 ^ 9)"
    by (simp add: spike_world_def calm_world_def)
  have m: "min (real (500 * 10 ^ 9) / 10 ^ 9) MAX_GAS_PRICE = 200"
    by (simp add: MAX_GAS_PRICE_def)
  have one: "fst (get_optimized_gas_price spike_world 0) = Inr 200"
    using fee_rate_is_clamped [where w = spike_world and k = 0 and g = "500 * 10 ^ 9"] g m
    by simp
  obtain r1 k1 evs1 where run1: "calculate_mon_profit spike_world 10 (99 / 10) 2 1 0 = (r1, k1, evs1)"
    by (cases "calculate_mon_profit spike_world 10 (99 / 10) 2 1 0")
  then obtain info where r1: "r1 = Inr info"
    by (auto simp: spike_world_def calm_world_def eval_defs)
  from fee_rate_is_clamped [where w = spike_world and k = 0 and sell = 10 and buy = "99 / 10"
      and amount = 2 and ?g0.0 = 1 and info = info and ?k1.0 = k1 and ?evs1.0 = evs1] run1 r1 g m
  have "gas_price_used info = 200"
    by auto
  with run1 r1 have two: "\<exists>info. fst (calculate_mon_profit spike_world 10 (99 / 10) 2 1 0) = Inr info \<and>
      gas_price_used info = 200"
    by simp
  obtain r k2 evs2 where run2:
    "execute_arbitrage spike_world Uniswap_router Crystal_router 10 0 = (r, k2, evs2)"
    by (cases "execute_arbitrage spike_world Uniswap_router Crystal_router 10 0")
  have "submissions evs2 \<noteq> []"
    using run2 by (auto simp: spike_world_def calm_world_def eval_defs)
  then obtain t x where sent: "(t, x) \<in> set (submissions evs2)"
    by (cases "submissions evs2") auto
  from fee_rate_is_clamped [where w = spike_world and k = 0 and hi = Uniswap_router
      and lo = Crystal_router and p = 10 and r = r and ?k2.0 = k2 and ?evs2.0 = evs2
      and t = t and x = x] run2 sent
  obtain j g' where "eth_gas_price spike_world j = Returns g'"
    and "gasPrice x = to_wei_gwei (min (real g' / 10 ^ 9) MAX_GAS_PRICE)"
    by blast
  with g [of j] have "gasPrice x = to_wei_gwei (min (real (500 * 10 ^ 9) / 10 ^ 9) MAX_GAS_PRICE)"
    by simp
  then have "gasPrice x = 200 * 10 ^ 9"
    by (simp only: to_wei_gwei_clamped)
  with sent run2 have three: "\<exists>t x. (t, x) \<in> set (submissions (snd (snd
        (execute_arbitrage spike_world Uniswap_router Crystal_router 10 0)))) \<and>
      gasPrice x = 200 * 10 ^ 9"
    by auto
  from one two three show ?thesis by blast
qed

section \<open>Zero and failed quotes\<close>

text \<open>
  C1 at a failing input: Uniswap quotes 10 USDC and the quote call to Crystal raises, so
  that \<^verbatim>\<open>get_price\<close> returns 0 for Crystal. The cycle does not skip: it goes on to the
  profit computation, which reads the fee rate and then divides by the zero price, and
  the cycle ends with \<^verbatim>\<open>ZeroDivisionError\<close>.
\<close>

theorem failed_quote_raises_ZeroDivisionError:
  "fst (check_arbitrage_opportunity crystal_outage_world 0) = Inl ZeroDivisionError \<and>
   snd (snd (check_arbitrage_opportunity crystal_outage_world 0)) =
      [Call 1000 Eth_gas_price Ok,
       Call 1001 (GetAmountsOut Uniswap_router (5 * 10 ^ 18) [WRAPPED_MONAD, USDC]) Ok,
       Call 1002 (GetAmountsOut Crystal_router (5 * 10 ^ 18) [WRAPPED_MONAD, USDC])
         (Failed (OtherException ''timeout'')),
       Print (Msg_price_error (OtherException ''timeout'')),
       Call 1003 Eth_gas_price Ok]"
  by (simp add: crystal_outage_world_def calm_world_def eval_defs)

section \<open>Trade size\<close>

text \<open>
  C6 at a failing input: with quotes of 10 and 9.9 USDC the deviation is 0.02, for which
  the position sizer selects 2 MON, and the cycle reports 2 MON and estimates the profit
  for 2 MON; the executor is handed the price 10 where it expects the deviation,
  sizes the trade from it, and both legs trade 5 MON.
\<close>

theorem executor_size_differs_from_evaluated_size:
  "get_dynamic_swap_amount (\<bar>10 - 99 / 10\<bar> / 5) = 2 * 10 ^ 18 \<and>
   Print (Msg_swap_amount 2) \<in> set (snd (snd (check_arbitrage_opportunity calm_world 0))) \<and>
   map (\<lambda>(t, x). (leg_of x, traded_amount x))
     (submissions (snd (snd (check_arbitrage_opportunity calm_world 0)))) =
   [(Leg1, 5 * 10 ^ 18), (Leg2, 5 * 10 ^ 18)]"
  by (simp add: calm_world_def eval_defs)

section \<open>The decision of a cycle\<close>












section \<open>The poll loop\<close>

lemma poll_loop_Suc:
  "poll_loop w (Suc n) k =
     (case check_arbitrage_opportunity w k of
        (Inl e, k1, evs) \<Rightarrow> (Inl e, k1, evs)
      | (Inr u, k1, evs) \<Rightarrow>
          (case time_sleep w k1 of
             Raises e \<Rightarrow> (Inl e, Suc k1, evs @ [Call (clock w k1) (Time_sleep 20) (Failed e)])
           | Returns u' \<Rightarrow>
               (case poll_loop w n (Suc k1) of
                  (r, k2, evs2) \<Rightarrow> (r, k2, evs @ Call (clock w k1) (Time_sleep 20) Ok # evs2))))"
  by (simp add: io_bind_def io_call_def split: prod.splits sum.splits outcome.splits)

lemma poll_loop_more_fuel:
  "poll_loop w n k = (Inl e, k', evs) \<Longrightarrow> n \<le> m \<Longrightarrow> poll_loop w m k = (Inl e, k', evs)"
proof (induction n arbitrary: m k k' evs)
  case 0
  then show ?case by (simp add: io_return_def)
next
  case (Suc n)
  from Suc.prems(2) obtain m' where m: "m = Suc m'" and le: "n \<le> m'"
    by (cases m) auto
  obtain r1 k1 evs1 where c: "check_arbitrage_opportunity w k = (r1, k1, evs1)"
    by (cases "check_arbitrage_opportunity w k")
  show ?case
  proof (cases r1)
    case (Inl e1)
    with c Suc.prems(1) show ?thesis
      unfolding m by (simp add: poll_loop_Suc del: poll_loop.simps)
  next
    case (Inr u)
    show ?thesis
    proof (cases "time_sleep w k1")
      case (Raises e1)
      with c Inr Suc.prems(1) show ?thesis
        unfolding m by (auto simp add: poll_loop_Suc simp del: poll_loop.simps)
    next
      case (Returns u')
      obtain r2 k2 evs2 where p: "poll_loop w n (Suc k1) = (r2, k2, evs2)"
        by (cases "poll_loop w n (Suc k1)")
      with c Inr Returns Suc.prems(1)
      have r2: "r2 = Inl e" and k2: "k2 = k'"
        and evs: "evs = evs1 @ Call (clock w k1) (Time_sleep 20) Ok # evs2"
        by (simp_all add: poll_loop_Suc del: poll_loop.simps)
      from Suc.IH [OF p [unfolded r2] le]
      have "poll_loop w m' (Suc k1) = (Inl e, k2, evs2)" .
      with c Inr Returns k2 evs show ?thesis
        unfolding m by (simp add: poll_loop_Suc del: poll_loop.simps)
    qed
  qed
qed

lemma main_eq:
  "main w n k =
     (case account_from_key w k of
        Raises e \<Rightarrow>
          (Exited, Suc k,
           [Call (clock w k) Account_from_key (Failed e),
            Print (if e = KeyboardInterrupt then Msg_stopped else Msg_critical e)])
      | Returns a \<Rightarrow>
          (case poll_loop w n (Suc k) of
             (Inr u, k1, evs) \<Rightarrow>
               (Polling, k1, Call (clock w k) Account_from_key Ok # Print Msg_started # evs)
           | (Inl e, k1, evs) \<Rightarrow>
               (Exited, k1, Call (clock w k) Account_from_key Ok # Print Msg_started # evs @
                  [Print (if e = KeyboardInterrupt then Msg_stopped else Msg_critical e)])))"
proof (cases "account_from_key w k")
  case (Raises e)
  then show ?thesis
    by (simp add: main_def io_bind_def io_call_def)
next
  case (Returns a)
  obtain r k1 evs where p: "poll_loop w n (Suc k) = (r, k1, evs)"
    by (cases "poll_loop w n (Suc k)")
  with Returns show ?thesis
    by (cases r) (simp_all add: main_def io_bind_def io_call_def io_seq_def io_print_def)
qed

lemma get_price_no_Exception:
  "is_Exception x \<Longrightarrow> fst (get_price w rt ti to a k) \<noteq> Inl x"
proof -
  assume x: "is_Exception x"
  have "io_post (get_price w rt ti to a) k (\<lambda>r k' evs. r \<noteq> Inl x)"
    using x by (auto simp: get_price_post split: outcome.splits)
  then show ?thesis
    by (cases "get_price w rt ti to a k") (simp add: io_post_def)
qed

lemma build_and_send_tx_no_Exception:
  "is_Exception x \<Longrightarrow> fst (build_and_send_tx w t k) \<noteq> Inl x"
proof -
  assume x: "is_Exception x"
  have "io_post (build_and_send_tx w t) k (\<lambda>r k' evs. r \<noteq> Inl x)"
    using x by (auto simp: build_and_send_tx_def io_post_simps split: outcome.splits)
  then show ?thesis
    by (cases "build_and_send_tx w t k") (simp add: io_post_def)
qed

text \<open>
  C4, as amended: an exception that escapes a cycle, or that the sleep after it raises,
  ends the poll loop at once, whatever the number of iterations still allowed, and the
  handler around the loop ends the process after printing that the bot was stopped
  (\<^verbatim>\<open>KeyboardInterrupt\<close>) or the critical error (any \<^verbatim>\<open>Exception\<close>); the loop goes
  on to the next cycle when the cycle and the sleep after it return; and an
  \<^verbatim>\<open>Exception\<close> raised by the quote call or by signing, sending or confirming a
  transaction never escapes \<^verbatim>\<open>get_price\<close>, which then returns 0, or
  \<^verbatim>\<open>build_and_send_tx\<close>, which then returns \<^verbatim>\<open>(None, 0)\<close>.
\<close>

theorem escaped_exception_ends_the_process:
  "(check_arbitrage_opportunity w k = (Inl e, k1, evs1) \<longrightarrow>
      poll_loop w (Suc n) k = (Inl e, k1, evs1)) \<and>
   (check_arbitrage_opportunity w k = (Inr u, k1, evs1) \<and> time_sleep w k1 = Returns u' \<longrightarrow>
      poll_loop w (Suc n) k =
        (case poll_loop w n (Suc k1) of
           (r, k2, evs2) \<Rightarrow> (r, k2, evs1 @ Call (clock w k1) (Time_sleep 20) Ok # evs2))) \<and>
   (account_from_key w k0 = Returns a \<and> poll_loop w n (Suc k0) = (Inl e, k3, evs3) \<and> n \<le> m \<longrightarrow>
      main w m k0 =
        (Exited, k3, Call (clock w k0) Account_from_key Ok # Print Msg_started # evs3 @
           [Print (if e = KeyboardInterrupt then Msg_stopped else Msg_critical e)])) \<and>
   (is_Exception x \<longrightarrow>
      fst (get_price w rt ti to am k) \<noteq> Inl x \<and> fst (build_and_send_tx w t k) \<noteq> Inl x) \<and>
   (check_arbitrage_opportunity w k = (Inr u, k1, evs1) \<and> time_sleep w k1 = Raises e' \<longrightarrow>
      poll_loop w (Suc n) k =
        (Inl e', Suc k1, evs1 @ [Call (clock w k1) (Time_sleep 20) (Failed e')])) \<and>
   (is_Exception y \<and> getAmountsOut w k rt am [ti, to] = Raises y \<longrightarrow>
      fst (get_price w rt ti to am k) = Inr 0) \<and>
   (is_Exception y \<and>
      (sign_transaction w k t = Raises y \<or>
       sign_transaction w k t = Returns () \<and> send_raw_transaction w (Suc k) t = Raises y \<or>
       (\<exists>h. sign_transaction w k t = Returns () \<and>
            send_raw_transaction w (Suc k) t = Returns h \<and>
            wait_for_transaction_receipt w (Suc (Suc k)) h = Raises y)) \<longrightarrow>
      fst (build_and_send_tx w t k) = Inr (None, 0))"
proof (intro conjI impI)
  assume "check_arbitrage_opportunity w k = (Inl e, k1, evs1)"
  then show "poll_loop w (Suc n) k = (Inl e, k1, evs1)"
    by (simp add: poll_loop_Suc del: poll_loop.simps)
next
  assume "check_arbitrage_opportunity w k = (Inr u, k1, evs1) \<and> time_sleep w k1 = Returns u'"
  then show "poll_loop w (Suc n) k =
        (case poll_loop w n (Suc k1) of
           (r, k2, evs2) \<Rightarrow> (r, k2, evs1 @ Call (clock w k1) (Time_sleep 20) Ok # evs2))"
    by (simp add: poll_loop_Suc del: poll_loop.simps)
next
  assume a: "account_from_key w k0 = Returns a \<and> poll_loop w n (Suc k0) = (Inl e, k3, evs3) \<and> n \<le> m"
  then have "poll_loop w m (Suc k0) = (Inl e, k3, evs3)"
    by (blast intro: poll_loop_more_fuel)
  with a show "main w m k0 =
        (Exited, k3, Call (clock w k0) Account_from_key Ok # Print Msg_started # evs3 @
           [Print (if e = KeyboardInterrupt then Msg_stopped else Msg_critical e)])"
    by (simp add: main_eq)
next
  assume "is_Exception x"
  then show "fst (get_price w rt ti to am k) \<noteq> Inl x"
    by (rule get_price_no_Exception)
next
  assume "is_Exception x"
  then show "fst (build_and_send_tx w t k) \<noteq> Inl x"
    by (rule build_and_send_tx_no_Exception)
next
  assume "check_arbitrage_opportunity w k = (Inr u, k1, evs1) \<and> time_sleep w k1 = Raises e'"
  then show "poll_loop w (Suc n) k =
        (Inl e', Suc k1, evs1 @ [Call (clock w k1) (Time_sleep 20) (Failed e')])"
    by (simp add: poll_loop_Suc del: poll_loop.simps)
next
  assume a: "is_Exception y \<and> getAmountsOut w k rt am [ti, to] = Raises y"
  have "io_post (get_price w rt ti to am) k (\<lambda>r k' evs. r = Inr 0)"
    using a by (simp add: get_price_post)
  then show "fst (get_price w rt ti to am k) = Inr 0"
    by (cases "get_price w rt ti to am k") (simp add: io_post_def)
next
  assume a: "is_Exception y \<and>
      (sign_transaction w k t = Raises y \<or>
       sign_transaction w k t = Returns () \<and> send_raw_transaction w (Suc k) t = Raises y \<or>
       (\<exists>h. sign_transaction w k t = Returns () \<and>
            send_raw_transaction w (Suc k) t = Returns h \<and>
            wait_for_transaction_receipt w (Suc (Suc k)) h = Raises y))"
  have "io_post (build_and_send_tx w t) k (\<lambda>r k' evs. r = Inr (None, 0))"
    using a by (auto simp: build_and_send_tx_def io_post_simps)
  then show "fst (build_and_send_tx w t k) = Inr (None, 0)"
    by (cases "build_and_send_tx w t k") (simp add: io_post_def)
qed

theorem escaped_exception_ends_the_process_witness:
  "fst (poll_loop rate_outage_world (Suc 5) 17) = Inl (OtherException ''unavailable'') \<and>
   fst (poll_loop calm_world (Suc 0) 1) = Inr () \<and>
   fst (main rate_outage_world 7 0) = Exited \<and>
   fst (get_price crystal_outage_world Crystal_router WRAPPED_MONAD USDC (5 * 10 ^ 18) 2) \<noteq>
     Inl (OtherException ''timeout'') \<and>
   fst (build_and_send_tx rejecting_world
          \<lparr> tx_router = Uniswap_router,
             tx_call = SwapExactETHForTokens 1 [WRAPPED_MONAD, USDC] ''bot'' 1060,
             chainId = 10143, gas = 300000, gasPrice = 1, nonce = 0, tx_value = 1 \<rparr> 0) \<noteq>
     Inl (OtherException ''rejected'') \<and>
   fst (poll_loop interrupted_world (Suc 3) 1) = Inl KeyboardInterrupt \<and>
   fst (get_price crystal_outage_world Crystal_router WRAPPED_MONAD USDC (5 * 10 ^ 18) 2) = Inr 0 \<and>
   fst (build_and_send_tx rejecting_world
          \<lparr> tx_router = Uniswap_router,
             tx_call = SwapExactETHForTokens 1 [WRAPPED_MONAD, USDC] ''bot'' 1060,
             chainId = 10143, gas = 300000, gasPrice = 1, nonce = 0, tx_value = 1 \<rparr> 0) =
     Inr (None, 0)"
proof -
  obtain r1 k1 evs1 where c1: "check_arbitrage_opportunity rate_outage_world 17 = (r1, k1, evs1)"
    by (cases "check_arbitrage_opportunity rate_outage_world 17")
  then have r1: "r1 = Inl (OtherException ''unavailable'')"
    by (auto simp: rate_outage_world_def calm_world_def eval_defs)
  from escaped_exception_ends_the_process
    [where w = rate_outage_world and k = 17 and e = "OtherException ''unavailable''"
       and ?k1.0 = k1 and ?evs1.0 = evs1 and n = 5] c1 r1
  have one: "fst (poll_loop rate_outage_world (Suc 5) 17) = Inl (OtherException ''unavailable'')"
    by simp
  obtain r2 k2 evs2 where c2: "check_arbitrage_opportunity calm_world 1 = (r2, k2, evs2)"
    by (cases "check_arbitrage_opportunity calm_world 1")
  then have r2: "r2 = Inr ()"
    by (auto simp: calm_world_def eval_defs)
  have sl: "time_sleep calm_world k2 = Returns ()"
    by (simp add: calm_world_def)
  from escaped_exception_ends_the_process
    [where w = calm_world and k = 1 and u = "()" and u' = "()"
       and ?k1.0 = k2 and ?evs1.0 = evs2 and n = 0] c2 r2 sl
  have two: "fst (poll_loop calm_world (Suc 0) 1) = Inr ()"
    by (simp add: io_return_def del: poll_loop.simps(2))
  obtain r3 k3 evs3 where p3: "poll_loop rate_outage_world (Suc (Suc 0)) (Suc 0) = (r3, k3, evs3)"
    by (cases "poll_loop rate_outage_world (Suc (Suc 0)) (Suc 0)")
  then have r3: "r3 = Inl (OtherException ''unavailable'')"
    by (auto simp: rate_outage_world_def calm_world_def eval_defs)
  have ak: "account_from_key rate_outage_world 0 = Returns ''bot''"
    by (simp add: rate_outage_world_def calm_world_def)
  from escaped_exception_ends_the_process
    [where w = rate_outage_world and ?k0.0 = 0 and a = "''bot''" and n = "Suc (Suc 0)"
       and e = "OtherException ''unavailable''" and ?k3.0 = k3 and ?evs3.0 = evs3 and m = 7]
    p3 r3 ak
  have three: "fst (main rate_outage_world 7 0) = Exited"
    by simp
  from escaped_exception_ends_the_process
    [where x = "OtherException ''timeout''" and w = crystal_outage_world and rt = Crystal_router
       and ti = WRAPPED_MONAD and to = USDC and am = "5 * 10 ^ 18" and k = 2]
  have four: "fst (get_price crystal_outage_world Crystal_router WRAPPED_MONAD USDC (5 * 10 ^ 18) 2) \<noteq>
     Inl (OtherException ''timeout'')"
    by (simp add: is_Exception_def)
  from escaped_exception_ends_the_process
    [where x = "OtherException ''rejected''" and w = rejecting_world and k = 0
       and t = "\<lparr> tx_router = Uniswap_router,
             tx_call = SwapExactETHForTokens 1 [WRAPPED_MONAD, USDC] ''bot'' 1060,
             chainId = 10143, gas = 300000, gasPrice = 1, nonce = 0, tx_value = 1 \<rparr>"]
  have five: "fst (build_and_send_tx rejecting_world
          \<lparr> tx_router = Uniswap_router,
             tx_call = SwapExactETHForTokens 1 [WRAPPED_MONAD, USDC] ''bot'' 1060,
             chainId = 10143, gas = 300000, gasPrice = 1, nonce = 0, tx_value = 1 \<rparr> 0) \<noteq>
     Inl (OtherException ''rejected'')"
    by (simp add: is_Exception_def)
  obtain r6 k6 evs6 where c6: "check_arbitrage_opportunity interrupted_world 1 = (r6, k6, evs6)"
    by (cases "check_arbitrage_opportunity interrupted_world 1")
  then have r6: "r6 = Inr ()"
    by (auto simp: interrupted_world_def calm_world_def eval_defs)
  have sl6: "time_sleep interrupted_world k6 = Raises KeyboardInterrupt"
    by (simp add: interrupted_world_def calm_world_def)
  from escaped_exception_ends_the_process
    [where w = interrupted_world and k = 1 and u = "()" and e' = KeyboardInterrupt
       and ?k1.0 = k6 and ?evs1.0 = evs6 and n = 3] c6 r6 sl6
  have six: "fst (poll_loop interrupted_world (Suc 3) 1) = Inl KeyboardInterrupt"
    by simp
  have out: "getAmountsOut crystal_outage_world 2 Crystal_router (5 * 10 ^ 18)
      [WRAPPED_MONAD, USDC] = Raises (OtherException ''timeout'')"
    by (simp add: crystal_outage_world_def calm_world_def)
  from escaped_exception_ends_the_process
    [where y = "OtherException ''timeout''" and w = crystal_outage_world and rt = Crystal_router
       and ti = WRAPPED_MONAD and to = USDC and am = "5 * 10 ^ 18" and k = 2] out
  have seven: "fst (get_price crystal_outage_world Crystal_router WRAPPED_MONAD USDC
      (5 * 10 ^ 18) 2) = Inr 0"
    by (simp add: is_Exception_def)
  have rej: "sign_transaction rejecting_world 0
          \<lparr> tx_router = Uniswap_router,
             tx_call = SwapExactETHForTokens 1 [WRAPPED_MONAD, USDC] ''bot'' 1060,
             chainId = 10143, gas = 300000, gasPrice = 1, nonce = 0, tx_value = 1 \<rparr> = Returns () \<and>
      send_raw_transaction rejecting_world (Suc 0)
          \<lparr> tx_router = Uniswap_router,
             tx_call = SwapExactETHForTokens 1 [WRAPPED_MONAD, USDC] ''bot'' 1060,
             chainId = 10143, gas = 300000, gasPrice = 1, nonce = 0, tx_value = 1 \<rparr> =
        Raises (OtherException ''rejected'')"
    by (simp add: rejecting_world_def calm_world_def)
  from escaped_exception_ends_the_process
    [where y = "OtherException ''rejected''" and w = rejecting_world and k = 0
       and t = "\<lparr> tx_router = Uniswap_router,
             tx_call = SwapExactETHForTokens 1 [WRAPPED_MONAD, USDC] ''bot'' 1060,
             chainId = 10143, gas = 300000, gasPrice = 1, nonce = 0, tx_value = 1 \<rparr>"] rej
  have eight: "fst (build_and_send_tx rejecting_world
          \<lparr> tx_router = Uniswap_router,
             tx_call = SwapExactETHForTokens 1 [WRAPPED_MONAD, USDC] ''bot'' 1060,
             chainId = 10143, gas = 300000, gasPrice = 1, nonce = 0, tx_value = 1 \<rparr> 0) =
     Inr (None, 0)"
    by (simp add: is_Exception_def)
  from one two three four five six seven eight show ?thesis by blast
qed


text \<open>
  C4 as stated fails when the fee rate cannot be read during the second cycle: the
  exception is not handled inside the cycle, the loop does not continue, and the
  process ends with the critical-error message.
\<close>

theorem rate_outage_ends_process_counterexample:
  "fst (main rate_outage_world (Suc (Suc 0)) 0) = Exited \<and>
   last (snd (snd (main rate_outage_world (Suc (Suc 0)) 0))) =
     Print (Msg_critical (OtherException ''unavailable''))"
  by (simp add: main_def rate_outage_world_def calm_world_def eval_defs)


end
